theory Spec2Isabelle
  imports Main
begin

section \<open>Values exchanged with the vendor API\<close>

text \<open>
  The API client returns parsed JSON. The device code stores whatever value it finds
  under a key, so the model keeps the values untyped, as Python does. Numbers are
  represented by integers: every operation the device code applies to a response value
  (subscripting, \<open>len\<close>, \<open>split\<close>, comparison with a string literal) treats all
  numbers alike. A JSON object is an association list read with \<open>map_of\<close>. A string
  is a list of characters; nothing below depends on characters outside ASCII.
\<close>

datatype json =
    JNull
  | JBool bool
  | JNum int
  | JStr string
  | JList "json list"
  | JDict "(string \<times> json) list"

text \<open>
  The exceptions that can leave the device code: \<open>InvalidResponse\<close> of
  \<open>exceptions.py\<close>, the built-in errors raised by subscripting and attribute access,
  and \<open>Other\<close> for whatever a collaborator (API client, entity) raises. The message
  text of an exception is not modelled.
\<close>

datatype exn =
    InvalidResponse
  | KeyError
  | TypeError
  | IndexError
  | AttributeError
  | Other string

datatype 'a outcome = Return 'a | Raise exn

text \<open>\<open>v[key]\<close> for a string key: only a dict accepts it.\<close>

fun getitem :: "json \<Rightarrow> string \<Rightarrow> exn + json" where
  "getitem (JDict kvs) k = (case map_of kvs k of None \<Rightarrow> Inl KeyError | Some v \<Rightarrow> Inr v)"
| "getitem _ k = Inl TypeError"

text \<open>\<open>len(v)\<close>: defined for lists, strings and dicts.\<close>

fun py_len :: "json \<Rightarrow> exn + nat" where
  "py_len (JList xs) = Inr (length xs)"
| "py_len (JStr s) = Inr (length s)"
| "py_len (JDict kvs) = Inr (length (remdups (map fst kvs)))"
| "py_len _ = Inl TypeError"

text \<open>\<open>v[0]\<close>: the keys of a parsed JSON object are strings, so a dict has no key 0.\<close>

fun getitem0 :: "json \<Rightarrow> exn + json" where
  "getitem0 (JList xs) = (case xs of [] \<Rightarrow> Inl IndexError | x # _ \<Rightarrow> Inr x)"
| "getitem0 (JStr s) = (case s of [] \<Rightarrow> Inl IndexError | c # _ \<Rightarrow> Inr (JStr [c]))"
| "getitem0 (JDict kvs) = Inl KeyError"
| "getitem0 _ = Inl TypeError"

text \<open>\<open>for x in v\<close>: a list yields its elements, a string its characters, a dict its keys.\<close>

fun py_iter :: "json \<Rightarrow> exn + json list" where
  "py_iter (JList xs) = Inr xs"
| "py_iter (JStr s) = Inr (map (\<lambda>c. JStr [c]) s)"
| "py_iter (JDict kvs) = Inr (map JStr (remdups (map fst kvs)))"
| "py_iter _ = Inl TypeError"

text \<open>\<open>s.split(",")\<close> on a string: never empty, one more piece than there are commas.\<close>

fun split_comma :: "string \<Rightarrow> string list" where
  "split_comma [] = [[]]"
| "split_comma (c # cs) =
     (if c = CHR '','' then [] # split_comma cs
      else (case split_comma cs of [] \<Rightarrow> [[c]] | w # ws \<Rightarrow> (c # w) # ws))"

text \<open>\<open>v.split(",")\<close> on a response value: only a string has the method.\<close>

fun py_split :: "json \<Rightarrow> exn + string list" where
  "py_split (JStr s) = Inr (split_comma s)"
| "py_split _ = Inl AttributeError"

text \<open>
  \<open>str.lower()\<close> on the letters A to Z; every other character is left as it is. The
  capability names and switch keys of the vendor vocabulary are ASCII identifiers.
\<close>

definition lower_char :: "char \<Rightarrow> char" where
  "lower_char c =
     (case map_of (zip ''ABCDEFGHIJKLMNOPQRSTUVWXYZ'' ''abcdefghijklmnopqrstuvwxyz'') c of
        None \<Rightarrow> c
      | Some l \<Rightarrow> l)"

definition lower :: "string \<Rightarrow> string" where
  "lower s = map lower_char s"

section \<open>Collaborators\<close>

text \<open>
  Modelled from the spec: the entity classes \<open>ImouSwitch\<close>, \<open>ImouSensor\<close> and
  \<open>ImouBinarySensor\<close> of \<open>device_entity.py\<close>. An entity is constructed from
  (api client, device id, device name, capability name), is identified by the device id
  and the capability name, answers \<open>get_name()\<close> with the capability name, and holds a
  last-known state, an enabled flag and a freshness flag. The spec does not give the
  values of the last three right after construction; the model takes \<open>None\<close>,
  \<open>True\<close> and \<open>False\<close>.
\<close>

datatype entity_class = Switch | Sensor | BinarySensor

record entity =
  ent_class :: entity_class
  ent_device_id :: json
  ent_device_name :: json
  ent_name :: string
  ent_state :: json
  ent_enabled :: bool
  ent_updated :: bool

definition new_entity :: "entity_class \<Rightarrow> json \<Rightarrow> json \<Rightarrow> string \<Rightarrow> entity" where
  "new_entity cls did dname sensor_type =
     \<lparr>ent_class = cls, ent_device_id = did, ent_device_name = dname, ent_name = sensor_type,
      ent_state = JNull, ent_enabled = True, ent_updated = False\<rparr>"

definition ImouSwitch :: "json \<Rightarrow> json \<Rightarrow> string \<Rightarrow> entity" where
  "ImouSwitch = new_entity Switch"

definition ImouSensor :: "json \<Rightarrow> json \<Rightarrow> string \<Rightarrow> entity" where
  "ImouSensor = new_entity Sensor"

definition ImouBinarySensor :: "json \<Rightarrow> json \<Rightarrow> string \<Rightarrow> entity" where
  "ImouBinarySensor = new_entity BinarySensor"

text \<open>
  Everything the device code takes from outside \<open>device.py\<close>:
  \<^item> the four tables of \<open>const.py\<close>, dicts from a name to its description, as association
    lists in key order;
  \<^item> the answers of the API client: each call either raises or returns a dict;
  \<^item> the client's introspection values used by the diagnostics;
  \<^item> an entity's \<open>async_update()\<close>: the entity after the call, and the exception if the
    call raised (the answer depends on the entity the method is called on);
  \<^item> Python's \<open>str()\<close> on a value that is not a string.
\<close>

record env =
  IMOU_CAPABILITIES :: "(string \<times> string) list"
  IMOU_SWITCHES :: "(string \<times> string) list"
  SENSORS :: "(string \<times> string) list"
  BINARY_SENSORS :: "(string \<times> string) list"
  async_api_deviceBaseDetailList :: "json list \<Rightarrow> exn + (string \<times> json) list"
  async_api_deviceOnline :: "json \<Rightarrow> exn + (string \<times> json) list"
  async_api_deviceBaseList :: "exn + (string \<times> json) list"
  get_base_url :: json
  get_timeout :: json
  is_connected :: json
  async_update :: "entity \<Rightarrow> exn option \<times> entity"
  py_str :: "json \<Rightarrow> string"

text \<open>The calls a method makes to its collaborators, in the order it makes them.\<close>

datatype call =
    Call_deviceBaseDetailList "json list"
  | Call_deviceOnline json
  | Call_deviceBaseList
  | Call_async_update entity

section \<open>ImouDevice\<close>

text \<open>
  The attributes of \<open>ImouDevice\<close>. The dict \<open>_sensor_instances\<close> is created with the keys
  "switch", "sensor", "binary_sensor" in this order and no method adds or removes a key,
  so it is three fields; \<open>sensor_instances_items\<close> below gives them in the dict's order.
  The reference to the API client is not part of the state: the client is the \<open>env\<close>
  argument of every method that uses it.
\<close>

record device =
  device_id :: json
  catalog :: json
  firmware :: json
  name :: json
  given_name :: string
  device_model :: json
  manufacturer :: string
  online :: bool
  capabilities :: "string list"
  switches :: "string list"
  switch_instances :: "entity list"
  sensor_instances :: "entity list"
  binary_sensor_instances :: "entity list"
  initialized :: bool
  enabled :: bool

definition ImouDevice :: "json \<Rightarrow> device" where
  "ImouDevice did =
     \<lparr>device_id = did, catalog = JStr ''N.A.'', firmware = JStr ''N.A.'',
      name = JStr ''N.A.'', given_name = '''', device_model = JStr ''N.A.'',
      manufacturer = ''Imou'', online = False, capabilities = [], switches = [],
      switch_instances = [], sensor_instances = [], binary_sensor_instances = [],
      initialized = False, enabled = True\<rparr>"

definition get_device_id :: "device \<Rightarrow> json" where
  "get_device_id d = device_id d"

definition get_name :: "device \<Rightarrow> json" where
  "get_name d = (if given_name d \<noteq> '''' then JStr (given_name d) else name d)"

definition set_name :: "string \<Rightarrow> device \<Rightarrow> device" where
  "set_name n d = d\<lparr>given_name := n\<rparr>"

definition is_online :: "device \<Rightarrow> bool" where
  "is_online d = online d"

definition set_enabled :: "bool \<Rightarrow> device \<Rightarrow> device" where
  "set_enabled v d = d\<lparr>enabled := v\<rparr>"

definition is_enabled :: "device \<Rightarrow> bool" where
  "is_enabled d = enabled d"

definition sensor_instances_items :: "device \<Rightarrow> (string \<times> entity list) list" where
  "sensor_instances_items d =
     [(''switch'', switch_instances d), (''sensor'', sensor_instances d),
      (''binary_sensor'', binary_sensor_instances d)]"

definition get_all_sensors :: "device \<Rightarrow> entity list" where
  "get_all_sensors d = concat (map snd (sensor_instances_items d))"

definition get_sensors_by_platform :: "device \<Rightarrow> string \<Rightarrow> entity list" where
  "get_sensors_by_platform d platform =
     (case map_of (sensor_instances_items d) platform of None \<Rightarrow> [] | Some xs \<Rightarrow> xs)"

definition get_sensor_by_name :: "device \<Rightarrow> string \<Rightarrow> entity option" where
  "get_sensor_by_name d n = find (\<lambda>s. ent_name s = n) (get_all_sensors d)"

subsection \<open>Diagnostics\<close>

text \<open>
  \<open>get_diagnostics()\<close> builds four lists. For a capability and for a switch the
  description is looked up under a membership test, with the name itself as the other
  branch of the conditional expression. For a sensor and for a binary sensor the table
  is subscripted directly, which raises \<open>KeyError\<close> for a name the table lacks.
\<close>

definition description_or_name :: "(string \<times> string) list \<Rightarrow> string \<Rightarrow> string" where
  "description_or_name table n =
     (case map_of table n of None \<Rightarrow> n | Some v \<Rightarrow> v @ '' ('' @ n @ '')'')"

definition description_lookup :: "(string \<times> string) list \<Rightarrow> string \<Rightarrow> exn + string" where
  "description_lookup table n =
     (case map_of table n of None \<Rightarrow> Inl KeyError | Some v \<Rightarrow> Inr (v @ '' ('' @ n @ '')''))"

definition diag_capability :: "env \<Rightarrow> string \<Rightarrow> json" where
  "diag_capability E capability_name =
     JDict [(''name'', JStr capability_name),
            (''description'', JStr (description_or_name (IMOU_CAPABILITIES E) capability_name))]"

definition diag_entity :: "entity \<Rightarrow> string \<Rightarrow> json" where
  "diag_entity s description =
     JDict [(''name'', JStr (ent_name s)),
            (''description'', JStr description),
            (''state'', ent_state s),
            (''is_enabled'', JBool (ent_enabled s)),
            (''is_updated'', JBool (ent_updated s))]"

definition diag_switch :: "env \<Rightarrow> entity \<Rightarrow> json" where
  "diag_switch E s = diag_entity s (description_or_name (IMOU_SWITCHES E) (ent_name s))"

fun diag_sensors :: "(string \<times> string) list \<Rightarrow> entity list \<Rightarrow> exn + json list" where
  "diag_sensors table [] = Inr []"
| "diag_sensors table (s # ss) =
     (case description_lookup table (ent_name s) of
        Inl e \<Rightarrow> Inl e
      | Inr description \<Rightarrow>
          (case diag_sensors table ss of
             Inl e \<Rightarrow> Inl e
           | Inr rest \<Rightarrow> Inr (diag_entity s description # rest)))"

definition get_diagnostics :: "env \<Rightarrow> device \<Rightarrow> exn + json" where
  "get_diagnostics E d =
     (let online_text = (if online d then ''yes'' else ''no'');
          capabilities_out = map (diag_capability E) (capabilities d);
          switches_out = map (diag_switch E) (switch_instances d)
      in case diag_sensors (SENSORS E) (sensor_instances d) of
           Inl e \<Rightarrow> Inl e
         | Inr sensors_out \<Rightarrow>
             (case diag_sensors (BINARY_SENSORS E) (binary_sensor_instances d) of
                Inl e \<Rightarrow> Inl e
              | Inr binary_sensors_out \<Rightarrow>
                  Inr (JDict
                    [(''api'', JDict [(''base_url'', get_base_url E),
                                      (''timeout'', get_timeout E),
                                      (''is_connected'', is_connected E)]),
                     (''device'', JDict [(''id'', device_id d),
                                         (''name'', name d),
                                         (''catalog'', catalog d),
                                         (''given_name'', JStr (given_name d)),
                                         (''model'', device_model d),
                                         (''firmware'', firmware d),
                                         (''manufacturer'', JStr (manufacturer d)),
                                         (''online'', JStr online_text)]),
                     (''capabilities'', JList capabilities_out),
                     (''switches'', JList switches_out),
                     (''sensors'', JList sensors_out),
                     (''binary_sensors'', JList binary_sensors_out)])))"

subsection \<open>Initialisation\<close>

text \<open>
  The switch loop of \<open>async_initialize\<close>. For one switch type the inner loop runs
  through the capabilities and stops at the first one equal to it up to case: the type
  is appended to \<open>_switches\<close> and a new switch entity to the "switch" category.
\<close>

fun add_switch :: "string \<Rightarrow> string list \<Rightarrow> device \<Rightarrow> device" where
  "add_switch switch_type [] d = d"
| "add_switch switch_type (capability # rest) d =
     (if lower switch_type = lower capability
      then d\<lparr>switches := switches d @ [switch_type],
             switch_instances := switch_instances d
               @ [ImouSwitch (device_id d) (get_name d) switch_type]\<rparr>
      else add_switch switch_type rest d)"

fun add_switches :: "string list \<Rightarrow> device \<Rightarrow> device" where
  "add_switches [] d = d"
| "add_switches (switch_type # rest) d =
     add_switches rest (add_switch switch_type (capabilities d) d)"

text \<open>
  The capability list is the comma-separated "ability" string; "motionDetect" is appended
  when the list lacks it.
\<close>

definition set_capabilities :: "string list \<Rightarrow> device \<Rightarrow> device" where
  "set_capabilities caps d =
     (let d = d\<lparr>capabilities := caps\<rparr>
      in if ''motionDetect'' \<notin> set (capabilities d)
         then d\<lparr>capabilities := capabilities d @ [''motionDetect'']\<rparr> else d)"

text \<open>The "lastAlarm" sensor and the "online" binary sensor, appended whatever the capabilities.\<close>

definition add_sensors :: "device \<Rightarrow> device" where
  "add_sensors d =
     (let d = d\<lparr>sensor_instances := sensor_instances d
                  @ [ImouSensor (device_id d) (get_name d) ''lastAlarm'']\<rparr>
      in d\<lparr>binary_sensor_instances := binary_sensor_instances d
              @ [ImouBinarySensor (device_id d) (get_name d) ''online'']\<rparr>)"

text \<open>
  The body of the \<open>try\<close> block: the exception it raises, if any, and the device as the
  assignments made up to that point leave it.
\<close>

definition initialize_body :: "env \<Rightarrow> json \<Rightarrow> device \<Rightarrow> exn option \<times> device" where
  "initialize_body E device_data d =
     (case getitem device_data ''catalog'' of Inl e \<Rightarrow> (Some e, d) | Inr v \<Rightarrow>
      let d = d\<lparr>catalog := v\<rparr> in
      case getitem device_data ''version'' of Inl e \<Rightarrow> (Some e, d) | Inr v \<Rightarrow>
      let d = d\<lparr>firmware := v\<rparr> in
      case getitem device_data ''name'' of Inl e \<Rightarrow> (Some e, d) | Inr v \<Rightarrow>
      let d = d\<lparr>name := v\<rparr> in
      case getitem device_data ''deviceModel'' of Inl e \<Rightarrow> (Some e, d) | Inr v \<Rightarrow>
      let d = d\<lparr>device_model := v\<rparr> in
      case getitem device_data ''status'' of Inl e \<Rightarrow> (Some e, d) | Inr v \<Rightarrow>
      let d = d\<lparr>online := (v = JStr ''online'')\<rparr> in
      case getitem device_data ''ability'' of Inl e \<Rightarrow> (Some e, d) | Inr v \<Rightarrow>
      case py_split v of Inl e \<Rightarrow> (Some e, d) | Inr caps \<Rightarrow>
      let d = set_capabilities caps d;
          d = add_switches (map fst (IMOU_SWITCHES E)) d;
          d = add_sensors d
      in (None, d))"

text \<open>
  \<open>async_initialize\<close>: the outcome, the device afterwards and the calls made. The two
  debug lines after the \<open>try\<close> block evaluate \<open>to_string()\<close> and \<open>dump()\<close>; \<open>dump()\<close>
  calls \<open>get_diagnostics()\<close>, whose exception leaves \<open>async_initialize\<close> before the
  initialized flag is set. The text handed to the logger is not modelled.
\<close>

definition async_initialize :: "env \<Rightarrow> device \<Rightarrow> unit outcome \<times> device \<times> call list" where
  "async_initialize E d =
     (let calls = [Call_deviceBaseDetailList [device_id d]] in
      case async_api_deviceBaseDetailList E [device_id d] of
        Inl e \<Rightarrow> (Raise e, d, calls)
      | Inr device_array \<Rightarrow>
          (case map_of device_array ''deviceList'' of
             None \<Rightarrow> (Raise InvalidResponse, d, calls)
           | Some device_list \<Rightarrow>
               (case py_len device_list of
                  Inl e \<Rightarrow> (Raise e, d, calls)
                | Inr n \<Rightarrow>
                    if n \<noteq> 1 then (Raise InvalidResponse, d, calls)
                    else
                      (case getitem0 device_list of
                         Inl e \<Rightarrow> (Raise e, d, calls)
                       | Inr device_data \<Rightarrow>
                           (case initialize_body E device_data d of
                              (Some e, d') \<Rightarrow> (Raise InvalidResponse, d', calls)
                            | (None, d') \<Rightarrow>
                                (case get_diagnostics E d' of
                                   Inl e \<Rightarrow> (Raise e, d', calls)
                                 | Inr _ \<Rightarrow>
                                     (Return (), d'\<lparr>initialized := True\<rparr>, calls)))))))"

subsection \<open>Refreshing\<close>

text \<open>
  The inner loop of \<open>async_get_data\<close> over one category: each entity's
  \<open>async_update()\<close> is awaited in list order; an exception ends the loop and leaves the
  entities after it untouched.
\<close>

fun update_instances :: "env \<Rightarrow> entity list \<Rightarrow> exn option \<times> entity list \<times> call list" where
  "update_instances E [] = (None, [], [])"
| "update_instances E (s # ss) =
     (case async_update E s of
        (Some e, s') \<Rightarrow> (Some e, s' # ss, [Call_async_update s])
      | (None, s') \<Rightarrow>
          (case update_instances E ss of
             (r, ss', calls) \<Rightarrow> (r, s' # ss', Call_async_update s # calls)))"

text \<open>The outer loop over \<open>_sensor_instances.items()\<close>: switch, sensor, binary_sensor.\<close>

definition update_all :: "env \<Rightarrow> device \<Rightarrow> exn option \<times> device \<times> call list" where
  "update_all E d =
     (case update_instances E (switch_instances d) of
        (Some e, sw, c1) \<Rightarrow> (Some e, d\<lparr>switch_instances := sw\<rparr>, c1)
      | (None, sw, c1) \<Rightarrow>
          (let d = d\<lparr>switch_instances := sw\<rparr> in
           case update_instances E (sensor_instances d) of
             (Some e, se, c2) \<Rightarrow> (Some e, d\<lparr>sensor_instances := se\<rparr>, c1 @ c2)
           | (None, se, c2) \<Rightarrow>
               (let d = d\<lparr>sensor_instances := se\<rparr> in
                case update_instances E (binary_sensor_instances d) of
                  (r, bs, c3) \<Rightarrow> (r, d\<lparr>binary_sensor_instances := bs\<rparr>, c1 @ c2 @ c3))))"

definition async_get_data :: "env \<Rightarrow> device \<Rightarrow> bool outcome \<times> device \<times> call list" where
  "async_get_data E d =
     (if \<not> enabled d then (Return False, d, [])
      else
        (case (if \<not> initialized d then async_initialize E d else (Return (), d, [])) of
           (Raise e, d, calls) \<Rightarrow> (Raise e, d, calls)
         | (Return _, d, calls) \<Rightarrow>
             (let calls = calls @ [Call_deviceOnline (device_id d)] in
              case async_api_deviceOnline E (device_id d) of
                Inl e \<Rightarrow> (Raise e, d, calls)
              | Inr data \<Rightarrow>
                  (case map_of data ''onLine'' of
                     None \<Rightarrow> (Raise InvalidResponse, d, calls)
                   | Some v \<Rightarrow>
                       (let d = d\<lparr>online := (v = JStr ''1'')\<rparr> in
                        if online d then
                          (case update_all E d of
                             (Some e, d, calls') \<Rightarrow> (Raise e, d, calls @ calls')
                           | (None, d, calls') \<Rightarrow> (Return True, d, calls @ calls'))
                        else (Return True, d, calls))))))"

section \<open>ImouDiscoverService\<close>

text \<open>The text an f-string puts in place of \<open>{v}\<close>: a string as it is, \<open>str(v)\<close> otherwise.\<close>

definition fstring :: "env \<Rightarrow> json \<Rightarrow> string" where
  "fstring E v = (case v of JStr s \<Rightarrow> s | _ \<Rightarrow> py_str E v)"

text \<open>
  The loop of \<open>async_discover_devices\<close>: for each entry a device is created from the
  entry's "deviceId", initialised, and stored under its display name. An exception ends
  the discovery.
\<close>

fun discover_loop ::
  "env \<Rightarrow> json list \<Rightarrow> (string \<rightharpoonup> device) \<Rightarrow> (string \<rightharpoonup> device) outcome \<times> call list" where
  "discover_loop E [] devices = (Return devices, [])"
| "discover_loop E (device_data # rest) devices =
     (case getitem device_data ''deviceId'' of
        Inl e \<Rightarrow> (Raise e, [])
      | Inr did \<Rightarrow>
          (case async_initialize E (ImouDevice did) of
             (Raise e, d, calls) \<Rightarrow> (Raise e, calls)
           | (Return _, d, calls) \<Rightarrow>
               (case discover_loop E rest (devices(fstring E (get_name d) \<mapsto> d)) of
                  (r, calls') \<Rightarrow> (r, calls @ calls'))))"

definition async_discover_devices :: "env \<Rightarrow> (string \<rightharpoonup> device) outcome \<times> call list" where
  "async_discover_devices E =
     (case async_api_deviceBaseList E of
        Inl e \<Rightarrow> (Raise e, [Call_deviceBaseList])
      | Inr devices_data \<Rightarrow>
          (case map_of devices_data ''deviceList'' of
             None \<Rightarrow> (Raise InvalidResponse, [Call_deviceBaseList])
           | Some device_list \<Rightarrow>
               (case map_of devices_data ''count'' of
                  None \<Rightarrow> (Raise InvalidResponse, [Call_deviceBaseList])
                | Some _ \<Rightarrow>
                    (case py_iter device_list of
                       Inl e \<Rightarrow> (Raise e, [Call_deviceBaseList])
                     | Inr entries \<Rightarrow>
                         (case discover_loop E entries Map.empty of
                            (r, calls) \<Rightarrow> (r, Call_deviceBaseList # calls))))))"

section \<open>A configuration for evaluating the model\<close>

text \<open>
  Two registered cameras that carry the same vendor name. The first reports its
  capabilities without "motionDetect" and names the close-camera capability twice, once
  in a spelling that differs from the switch table's key in case only.
\<close>

definition demo_entry :: "json \<Rightarrow> json" where
  "demo_entry did =
     JDict [(''deviceId'', did), (''catalog'', JStr ''IPC''), (''version'', JStr ''2.680''),
            (''name'', JStr ''Cam''), (''deviceModel'', JStr ''IPC-C22EP''),
            (''status'', JStr ''online''),
            (''ability'', JStr (if did = JStr ''IPC1'' then ''WLAN,CloseCamera,closeCamera''
                                else ''motionDetect''))]"

definition demo_update :: "entity \<Rightarrow> exn option \<times> entity" where
  "demo_update s = (None, s\<lparr>ent_state := JStr ''on'', ent_updated := True\<rparr>)"

definition demo_str :: "json \<Rightarrow> string" where
  "demo_str v = (case v of JBool True \<Rightarrow> ''True'' | JBool False \<Rightarrow> ''False'' | _ \<Rightarrow> ''None'')"

definition demo_env :: env where
  "demo_env =
     \<lparr>IMOU_CAPABILITIES = [(''WLAN'', ''Wi-Fi''), (''motionDetect'', ''Motion detection'')],
      IMOU_SWITCHES = [(''motionDetect'', ''Motion Detect''),
                       (''headerDetect'', ''Human Detection''),
                       (''closeCamera'', ''Close Camera'')],
      SENSORS = [(''lastAlarm'', ''Last alarm'')],
      BINARY_SENSORS = [(''online'', ''Online'')],
      async_api_deviceBaseDetailList = (\<lambda>ids. Inr [(''deviceList'', JList (map demo_entry ids))]),
      async_api_deviceOnline = (\<lambda>did. Inr [(''onLine'', JStr ''1'')]),
      async_api_deviceBaseList =
        Inr [(''count'', JNum 2),
             (''deviceList'', JList [JDict [(''deviceId'', JStr ''IPC1'')],
                                     JDict [(''deviceId'', JStr ''IPC2'')]])],
      get_base_url = JStr ''https://openapi.easy4ip.com/openapi'',
      get_timeout = JNum 10,
      is_connected = JBool True,
      async_update = demo_update,
      py_str = demo_str\<rparr>"

text \<open>The two cameras as \<open>async_initialize\<close> leaves them.\<close>

definition demo_device :: device where
  "demo_device =
     \<lparr>device_id = JStr ''IPC1'', catalog = JStr ''IPC'', firmware = JStr ''2.680'',
      name = JStr ''Cam'', given_name = '''', device_model = JStr ''IPC-C22EP'',
      manufacturer = ''Imou'', online = True,
      capabilities = [''WLAN'', ''CloseCamera'', ''closeCamera'', ''motionDetect''],
      switches = [''motionDetect'', ''closeCamera''],
      switch_instances = [ImouSwitch (JStr ''IPC1'') (JStr ''Cam'') ''motionDetect'',
                          ImouSwitch (JStr ''IPC1'') (JStr ''Cam'') ''closeCamera''],
      sensor_instances = [ImouSensor (JStr ''IPC1'') (JStr ''Cam'') ''lastAlarm''],
      binary_sensor_instances = [ImouBinarySensor (JStr ''IPC1'') (JStr ''Cam'') ''online''],
      initialized = True, enabled = True\<rparr>"

definition demo_device2 :: device where
  "demo_device2 =
     \<lparr>device_id = JStr ''IPC2'', catalog = JStr ''IPC'', firmware = JStr ''2.680'',
      name = JStr ''Cam'', given_name = '''', device_model = JStr ''IPC-C22EP'',
      manufacturer = ''Imou'', online = True,
      capabilities = [''motionDetect''],
      switches = [''motionDetect''],
      switch_instances = [ImouSwitch (JStr ''IPC2'') (JStr ''Cam'') ''motionDetect''],
      sensor_instances = [ImouSensor (JStr ''IPC2'') (JStr ''Cam'') ''lastAlarm''],
      binary_sensor_instances = [ImouBinarySensor (JStr ''IPC2'') (JStr ''Cam'') ''online''],
      initialized = True, enabled = True\<rparr>"

text \<open>The first camera after a second successful \<open>async_initialize\<close>.\<close>

definition demo_device_twice :: device where
  "demo_device_twice =
     demo_device
       \<lparr>switches := switches demo_device @ switches demo_device,
        switch_instances := switch_instances demo_device @ switch_instances demo_device,
        sensor_instances := sensor_instances demo_device @ sensor_instances demo_device,
        binary_sensor_instances :=
          binary_sensor_instances demo_device @ binary_sensor_instances demo_device\<rparr>"

text \<open>The same configuration with another answer to the detail request, or to the online request.\<close>

definition demo_env_detail :: "(string \<times> json) list \<Rightarrow> env" where
  "demo_env_detail response = demo_env\<lparr>async_api_deviceBaseDetailList := (\<lambda>ids. Inr response)\<rparr>"

definition demo_env_online :: "(string \<times> json) list \<Rightarrow> env" where
  "demo_env_online response = demo_env\<lparr>async_api_deviceOnline := (\<lambda>did. Inr response)\<rparr>"

text \<open>
  The same configuration with an update that raises on the "lastAlarm" sensor, as a
  request that times out does.
\<close>

definition demo_update_failing :: "entity \<Rightarrow> exn option \<times> entity" where
  "demo_update_failing s =
     (if ent_name s = ''lastAlarm'' then (Some (Other ''timeout''), s) else demo_update s)"

definition demo_env_failing :: env where
  "demo_env_failing = demo_env\<lparr>async_update := demo_update_failing\<rparr>"

text \<open>The same configuration with other tables \<open>SENSORS\<close> and \<open>BINARY_SENSORS\<close>.\<close>

definition demo_env_tables :: "(string \<times> string) list \<Rightarrow> (string \<times> string) list \<Rightarrow> env" where
  "demo_env_tables sensors binary_sensors =
     demo_env\<lparr>SENSORS := sensors, BINARY_SENSORS := binary_sensors\<rparr>"

section \<open>Auxiliary facts\<close>

subsection \<open>The switch loop\<close>

lemma add_switch_eq:
  "add_switch t caps d =
     (if \<exists>c\<in>set caps. lower t = lower c
      then d\<lparr>switches := switches d @ [t],
             switch_instances := switch_instances d @ [ImouSwitch (device_id d) (get_name d) t]\<rparr>
      else d)"
  by (induction caps) auto

lemma add_switches_eq:
  "add_switches ts d =
     d\<lparr>switches := switches d @ filter (\<lambda>t. \<exists>c\<in>set (capabilities d). lower t = lower c) ts,
       switch_instances := switch_instances d
         @ map (ImouSwitch (device_id d) (get_name d))
             (filter (\<lambda>t. \<exists>c\<in>set (capabilities d). lower t = lower c) ts)\<rparr>"
proof (induction ts arbitrary: d)
  case Nil
  show ?case by simp
next
  case (Cons t ts)
  show ?case
    by (simp add: Cons.IH add_switch_eq get_name_def)
qed

lemma py_split_Inr: "py_split v = Inr caps \<Longrightarrow> \<exists>ab. v = JStr ab \<and> caps = split_comma ab"
  by (cases v) auto

lemma initialize_body_NoneD:
  assumes "initialize_body E device_data d = (None, d')"
  shows "\<exists>vc vv vn vm vs ab.
           getitem device_data ''catalog'' = Inr vc
         \<and> getitem device_data ''version'' = Inr vv
         \<and> getitem device_data ''name'' = Inr vn
         \<and> getitem device_data ''deviceModel'' = Inr vm
         \<and> getitem device_data ''status'' = Inr vs
         \<and> getitem device_data ''ability'' = Inr (JStr ab)
         \<and> initialize_body E device_data d = (None, d')"
proof -
  obtain vc where 1: "getitem device_data ''catalog'' = Inr vc"
    using assms by (cases "getitem device_data ''catalog''") (simp_all add: initialize_body_def)
  obtain vv where 2: "getitem device_data ''version'' = Inr vv"
    using assms 1 by (cases "getitem device_data ''version''") (simp_all add: initialize_body_def)
  obtain vn where 3: "getitem device_data ''name'' = Inr vn"
    using assms 1 2 by (cases "getitem device_data ''name''") (simp_all add: initialize_body_def)
  obtain vm where 4: "getitem device_data ''deviceModel'' = Inr vm"
    using assms 1 2 3 by (cases "getitem device_data ''deviceModel''") (simp_all add: initialize_body_def)
  obtain vs where 5: "getitem device_data ''status'' = Inr vs"
    using assms 1 2 3 4 by (cases "getitem device_data ''status''") (simp_all add: initialize_body_def)
  obtain va where 6: "getitem device_data ''ability'' = Inr va"
    using assms 1 2 3 4 5 by (cases "getitem device_data ''ability''") (simp_all add: initialize_body_def)
  obtain caps where 7: "py_split va = Inr caps"
    using assms 1 2 3 4 5 6 by (cases "py_split va") (simp_all add: initialize_body_def)
  from 7 obtain ab where "va = JStr ab" using py_split_Inr by blast
  with 1 2 3 4 5 6 assms show ?thesis by blast
qed



lemma add_switches_frame [simp]:
  "capabilities (add_switches ts d) = capabilities d"
  "device_id (add_switches ts d) = device_id d"
  "name (add_switches ts d) = name d"
  "given_name (add_switches ts d) = given_name d"
  "get_name (add_switches ts d) = get_name d"
  "sensor_instances (add_switches ts d) = sensor_instances d"
  "binary_sensor_instances (add_switches ts d) = binary_sensor_instances d"
  "initialized (add_switches ts d) = initialized d"
  "enabled (add_switches ts d) = enabled d"
  "online (add_switches ts d) = online d"
  by (simp_all add: add_switches_eq get_name_def)

lemma add_sensors_frame [simp]:
  "capabilities (add_sensors d) = capabilities d"
  "device_id (add_sensors d) = device_id d"
  "name (add_sensors d) = name d"
  "given_name (add_sensors d) = given_name d"
  "get_name (add_sensors d) = get_name d"
  "switches (add_sensors d) = switches d"
  "switch_instances (add_sensors d) = switch_instances d"
  "initialized (add_sensors d) = initialized d"
  "enabled (add_sensors d) = enabled d"
  "online (add_sensors d) = online d"
  by (simp_all add: add_sensors_def get_name_def)

lemma add_sensors_lists:
  "sensor_instances (add_sensors d) =
     sensor_instances d @ [ImouSensor (device_id d) (get_name d) ''lastAlarm'']"
  "binary_sensor_instances (add_sensors d) =
     binary_sensor_instances d @ [ImouBinarySensor (device_id d) (get_name d) ''online'']"
  by (simp_all add: add_sensors_def get_name_def)

lemma set_capabilities_frame [simp]:
  "device_id (set_capabilities caps d) = device_id d"
  "name (set_capabilities caps d) = name d"
  "given_name (set_capabilities caps d) = given_name d"
  "get_name (set_capabilities caps d) = get_name d"
  "switches (set_capabilities caps d) = switches d"
  "switch_instances (set_capabilities caps d) = switch_instances d"
  "sensor_instances (set_capabilities caps d) = sensor_instances d"
  "binary_sensor_instances (set_capabilities caps d) = binary_sensor_instances d"
  "initialized (set_capabilities caps d) = initialized d"
  "enabled (set_capabilities caps d) = enabled d"
  "online (set_capabilities caps d) = online d"
  by (simp_all add: set_capabilities_def get_name_def Let_def)

lemma set_capabilities_caps:
  "capabilities (set_capabilities caps d) =
     (if ''motionDetect'' \<in> set caps then caps else caps @ [''motionDetect''])"
  by (simp add: set_capabilities_def Let_def)

lemma add_switches_lists:
  "switches (add_switches ts d) =
     switches d @ filter (\<lambda>t. \<exists>c\<in>set (capabilities d). lower t = lower c) ts"
  "switch_instances (add_switches ts d) =
     switch_instances d @ map (ImouSwitch (device_id d) (get_name d))
       (filter (\<lambda>t. \<exists>c\<in>set (capabilities d). lower t = lower c) ts)"
  by (simp_all add: add_switches_eq)

lemma initialize_body_eq:
  assumes "getitem device_data ''catalog'' = Inr vc"
    and "getitem device_data ''version'' = Inr vv"
    and "getitem device_data ''name'' = Inr vn"
    and "getitem device_data ''deviceModel'' = Inr vm"
    and "getitem device_data ''status'' = Inr vs"
    and "getitem device_data ''ability'' = Inr (JStr ab)"
  shows "initialize_body E device_data d =
    (None,
     add_sensors (add_switches (map fst (IMOU_SWITCHES E))
       (set_capabilities (split_comma ab)
          (d\<lparr>catalog := vc, firmware := vv, name := vn, device_model := vm,
              online := (vs = JStr ''online'')\<rparr>))))"
  by (simp add: initialize_body_def assms)


lemma initialize_body_initialized:
  "initialized (snd (initialize_body E device_data d)) = initialized d"
  by (simp add: initialize_body_def Let_def split: sum.splits)

lemma initialize_body_enabled:
  "enabled (snd (initialize_body E device_data d)) = enabled d"
  by (simp add: initialize_body_def Let_def split: sum.splits)

lemma async_initialize_ReturnD:
  assumes "async_initialize E d = (Return u, d', calls)"
  shows "\<exists>device_array device_list device_data d''.
           async_api_deviceBaseDetailList E [device_id d] = Inr device_array
         \<and> map_of device_array ''deviceList'' = Some device_list
         \<and> py_len device_list = Inr 1
         \<and> getitem0 device_list = Inr device_data
         \<and> initialize_body E device_data d = (None, d'')
         \<and> (\<exists>j. get_diagnostics E d'' = Inr j)
         \<and> d' = d''\<lparr>initialized := True\<rparr>
         \<and> calls = [Call_deviceBaseDetailList [device_id d]]"
proof -
  obtain device_array where 1: "async_api_deviceBaseDetailList E [device_id d] = Inr device_array"
    using assms by (cases "async_api_deviceBaseDetailList E [device_id d]")
      (simp_all add: async_initialize_def)
  obtain device_list where 2: "map_of device_array ''deviceList'' = Some device_list"
    using assms 1 by (cases "map_of device_array ''deviceList''")
      (simp_all add: async_initialize_def)
  obtain n where 3: "py_len device_list = Inr n"
    using assms 1 2 by (cases "py_len device_list") (simp_all add: async_initialize_def)
  have 4: "n = 1"
    using assms 1 2 3 by (cases "n = 1") (simp_all add: async_initialize_def)
  obtain device_data where 5: "getitem0 device_list = Inr device_data"
    using assms 1 2 3 4 by (cases "getitem0 device_list") (simp_all add: async_initialize_def)
  obtain r d'' where 6: "initialize_body E device_data d = (r, d'')"
    by (cases "initialize_body E device_data d")
  have 7: "r = None"
    using assms 1 2 3 4 5 6 by (cases r) (simp_all add: async_initialize_def)
  obtain j where 8: "get_diagnostics E d'' = Inr j"
    using assms 1 2 3 4 5 6 7 by (cases "get_diagnostics E d''")
      (simp_all add: async_initialize_def)
  have "d' = d''\<lparr>initialized := True\<rparr>" "calls = [Call_deviceBaseDetailList [device_id d]]"
    using assms 1 2 3 4 5 6 7 8 by (simp_all add: async_initialize_def)
  with 1 2 3 4 5 6 7 8 show ?thesis by blast
qed

lemma async_initialize_initialized:
  "initialized (fst (snd (async_initialize E d))) =
     (case fst (async_initialize E d) of Return _ \<Rightarrow> True | Raise _ \<Rightarrow> initialized d)"
proof -
  have *: "initialized d' = initialized d" if "initialize_body E device_data d = (r, d')"
    for device_data r d'
    using initialize_body_initialized [of E device_data d] that by simp
  show ?thesis
    by (auto simp: async_initialize_def Let_def split: sum.splits option.splits prod.splits
             dest: *)
qed

lemma async_initialize_calls:
  "snd (snd (async_initialize E d)) = [Call_deviceBaseDetailList [device_id d]]"
  by (simp add: async_initialize_def Let_def split: sum.splits option.splits prod.splits)


lemma async_initialize_success:
  assumes "async_initialize E d = (Return u, d', calls)"
  shows "\<exists>vc vv vn vm vs ab.
    d' = (add_sensors (add_switches (map fst (IMOU_SWITCHES E))
            (set_capabilities (split_comma ab)
               (d\<lparr>catalog := vc, firmware := vv, name := vn, device_model := vm,
                   online := (vs = JStr ''online'')\<rparr>))))\<lparr>initialized := True\<rparr>"
proof -
  from async_initialize_ReturnD [OF assms] obtain device_data d''
    where body: "initialize_body E device_data d = (None, d'')"
      and d': "d' = d''\<lparr>initialized := True\<rparr>"
    by blast
  from initialize_body_NoneD [OF body] obtain vc vv vn vm vs ab
    where "getitem device_data ''catalog'' = Inr vc"
      and "getitem device_data ''version'' = Inr vv"
      and "getitem device_data ''name'' = Inr vn"
      and "getitem device_data ''deviceModel'' = Inr vm"
      and "getitem device_data ''status'' = Inr vs"
      and "getitem device_data ''ability'' = Inr (JStr ab)"
    by blast
  from initialize_body_eq [OF this, of E d] body
  have "d'' = add_sensors (add_switches (map fst (IMOU_SWITCHES E))
            (set_capabilities (split_comma ab)
               (d\<lparr>catalog := vc, firmware := vv, name := vn, device_model := vm,
                   online := (vs = JStr ''online'')\<rparr>)))"
    by simp
  with d' show ?thesis
    by blast
qed

lemma get_name_initialized [simp]: "get_name (d\<lparr>initialized := b\<rparr>) = get_name d"
  by (simp add: get_name_def)

lemma async_initialize_fields:
  assumes "async_initialize E d = (Return u, d', calls)"
  shows "''motionDetect'' \<in> set (capabilities d')"
    and "switch_instances d' = switch_instances d
           @ map (ImouSwitch (device_id d) (get_name d'))
               (filter (\<lambda>t. \<exists>c\<in>set (capabilities d'). lower t = lower c)
                  (map fst (IMOU_SWITCHES E)))"
    and "switches d' = switches d
           @ filter (\<lambda>t. \<exists>c\<in>set (capabilities d'). lower t = lower c)
               (map fst (IMOU_SWITCHES E))"
    and "sensor_instances d' = sensor_instances d
           @ [ImouSensor (device_id d) (get_name d') ''lastAlarm'']"
    and "binary_sensor_instances d' = binary_sensor_instances d
           @ [ImouBinarySensor (device_id d) (get_name d') ''online'']"
    and "device_id d' = device_id d" and "given_name d' = given_name d"
    and "enabled d' = enabled d" and "initialized d'"
proof -
  from async_initialize_success [OF assms] obtain vc vv vn vm vs ab where
    d': "d' = (add_sensors (add_switches (map fst (IMOU_SWITCHES E))
            (set_capabilities (split_comma ab)
               (d\<lparr>catalog := vc, firmware := vv, name := vn, device_model := vm,
                   online := (vs = JStr ''online'')\<rparr>))))\<lparr>initialized := True\<rparr>"
    by blast
  show "''motionDetect'' \<in> set (capabilities d')"
    by (simp add: d' set_capabilities_caps)
  show "switch_instances d' = switch_instances d
           @ map (ImouSwitch (device_id d) (get_name d'))
               (filter (\<lambda>t. \<exists>c\<in>set (capabilities d'). lower t = lower c)
                  (map fst (IMOU_SWITCHES E)))"
    by (simp add: d' add_switches_lists)
  show "switches d' = switches d
           @ filter (\<lambda>t. \<exists>c\<in>set (capabilities d'). lower t = lower c)
               (map fst (IMOU_SWITCHES E))"
    by (simp add: d' add_switches_lists)
  show "sensor_instances d' = sensor_instances d
           @ [ImouSensor (device_id d) (get_name d') ''lastAlarm'']"
    by (simp add: d' add_sensors_lists)
  show "binary_sensor_instances d' = binary_sensor_instances d
           @ [ImouBinarySensor (device_id d) (get_name d') ''online'']"
    by (simp add: d' add_sensors_lists)
  show "device_id d' = device_id d" "given_name d' = given_name d"
    "enabled d' = enabled d" "initialized d'"
    by (simp_all add: d')
qed

subsection \<open>Entities by name\<close>

lemma count_list_filter_distinct:
  "distinct xs \<Longrightarrow> count_list (filter P xs) t = (if t \<in> set xs \<and> P t then 1 else 0)"
  by (induction xs) auto

lemma ent_name_ImouSwitch [simp]: "ent_name (ImouSwitch i n t) = t"
  by (simp add: ImouSwitch_def new_entity_def)

lemma ent_name_ImouSensor [simp]: "ent_name (ImouSensor i n t) = t"
  by (simp add: ImouSensor_def new_entity_def)

lemma ent_name_ImouBinarySensor [simp]: "ent_name (ImouBinarySensor i n t) = t"
  by (simp add: ImouBinarySensor_def new_entity_def)

lemma length_filter_map_ImouSwitch:
  "length (filter (\<lambda>s. ent_name s = t) (map (ImouSwitch i n) ts)) = count_list ts t"
  by (induction ts) auto

subsection \<open>Failure of the try block\<close>

lemma initialize_body_Some:
  assumes "\<not> (\<exists>vc vv vn vm vs ab.
             getitem device_data ''catalog'' = Inr vc
           \<and> getitem device_data ''version'' = Inr vv
           \<and> getitem device_data ''name'' = Inr vn
           \<and> getitem device_data ''deviceModel'' = Inr vm
           \<and> getitem device_data ''status'' = Inr vs
           \<and> getitem device_data ''ability'' = Inr (JStr ab))"
  shows "fst (initialize_body E device_data d) \<noteq> None"
proof
  assume "fst (initialize_body E device_data d) = None"
  then have "initialize_body E device_data d = (None, snd (initialize_body E device_data d))"
    by (simp add: prod_eq_iff)
  from initialize_body_NoneD [OF this] assms show False
    by blast
qed

lemma async_initialize_body_fails:
  assumes "async_api_deviceBaseDetailList E [device_id d] = Inr device_array"
    and "map_of device_array ''deviceList'' = Some (JList [device_data])"
    and "fst (initialize_body E device_data d) \<noteq> None"
  shows "fst (async_initialize E d) = Raise InvalidResponse"
  using assms
  by (cases "initialize_body E device_data d")
     (auto simp: async_initialize_def)

subsection \<open>The refresh loop\<close>

lemma update_instances_ok:
  assumes "\<forall>s\<in>set xs. fst (async_update E s) = None"
  shows "update_instances E xs =
           (None, map (\<lambda>s. snd (async_update E s)) xs, map Call_async_update xs)"
  using assms
  by (induction xs) (auto split: prod.splits option.splits)

subsection \<open>Diagnostics\<close>

lemma description_or_name_unknown:
  "map_of table n = None \<Longrightarrow> description_or_name table n = n"
  by (simp add: description_or_name_def)

lemma diag_capability_unknown:
  "map_of (IMOU_CAPABILITIES E) c = None \<Longrightarrow>
   diag_capability E c = JDict [(''name'', JStr c), (''description'', JStr c)]"
  by (simp add: diag_capability_def description_or_name_unknown)

lemma diag_switch_unknown:
  "map_of (IMOU_SWITCHES E) (ent_name s) = None \<Longrightarrow>
   getitem (diag_switch E s) ''description'' = Inr (JStr (ent_name s))"
  by (simp add: diag_switch_def diag_entity_def description_or_name_unknown)

lemma diag_sensors_unknown:
  "map_of table (ent_name s) = None \<Longrightarrow> diag_sensors table (s # ss) = Inl KeyError"
  by (simp add: description_lookup_def)

subsection \<open>The discovery loop\<close>

lemma fold_store_find:
  "fold (\<lambda>d m. m(key d \<mapsto> d)) ds m0 k =
     (case find (\<lambda>d. key d = k) (rev ds) of None \<Rightarrow> m0 k | Some d \<Rightarrow> Some d)"
  by (induction ds rule: rev_induct) auto

lemma discover_loop_Return:
  assumes "discover_loop E entries m0 = (Return m, calls)"
  shows "\<exists>ds. list_all2
                (\<lambda>entry d. \<exists>did u c. getitem entry ''deviceId'' = Inr did
                     \<and> async_initialize E (ImouDevice did) = (Return u, d, c))
                entries ds
             \<and> m = fold (\<lambda>d m. m(fstring E (get_name d) \<mapsto> d)) ds m0"
  using assms
proof (induction entries arbitrary: m0 calls)
  case Nil
  then show ?case by simp
next
  case (Cons entry entries)
  from Cons.prems obtain did where did: "getitem entry ''deviceId'' = Inr did"
    by (cases "getitem entry ''deviceId''") simp_all
  obtain r d c where init: "async_initialize E (ImouDevice did) = (r, d, c)"
    by (cases "async_initialize E (ImouDevice did)")
  from Cons.prems did init obtain u where r: "r = Return u"
    by (cases r) simp_all
  obtain r' c' where rest:
    "discover_loop E entries (m0(fstring E (get_name d) \<mapsto> d)) = (r', c')"
    by (cases "discover_loop E entries (m0(fstring E (get_name d) \<mapsto> d))")
  from Cons.prems did init r rest have "r' = Return m"
    by simp
  with rest Cons.IH obtain ds where
    ds: "list_all2
          (\<lambda>entry d. \<exists>did u c. getitem entry ''deviceId'' = Inr did
               \<and> async_initialize E (ImouDevice did) = (Return u, d, c))
          entries ds"
    and m: "m = fold (\<lambda>d m. m(fstring E (get_name d) \<mapsto> d)) ds
                 (m0(fstring E (get_name d) \<mapsto> d))"
    by blast
  from did init r ds have "list_all2
          (\<lambda>entry d. \<exists>did u c. getitem entry ''deviceId'' = Inr did
               \<and> async_initialize E (ImouDevice did) = (Return u, d, c))
          (entry # entries) (d # ds)"
    by auto
  moreover from m have "m = fold (\<lambda>d m. m(fstring E (get_name d) \<mapsto> d)) (d # ds) m0"
    by simp
  ultimately show ?case
    by blast
qed

lemma find_rev_last:
  assumes "j < length ds" and "P (ds ! j)"
    and "\<forall>l. j < l \<and> l < length ds \<longrightarrow> \<not> P (ds ! l)"
  shows "find P (rev ds) = Some (ds ! j)"
  using assms
proof (induction ds arbitrary: j rule: rev_induct)
  case Nil
  then show ?case by simp
next
  case (snoc x xs)
  show ?case
  proof (cases "j = length xs")
    case True
    with snoc.prems show ?thesis by simp
  next
    case False
    with snoc.prems have j: "j < length xs" by simp
    from snoc.prems(3) j have nx: "\<not> P x"
      by (metis length_append_singleton lessI nth_append_length)
    have "P (xs ! j)" using snoc.prems(2) j by (simp add: nth_append)
    moreover have "\<forall>l. j < l \<and> l < length xs \<longrightarrow> \<not> P (xs ! l)"
      using snoc.prems(3) by (metis length_append_singleton less_Suc_eq nth_append)
    ultimately have "find P (rev xs) = Some (xs ! j)"
      using snoc.IH j by blast
    with nx j show ?thesis by (simp add: nth_append)
  qed
qed

subsection \<open>The demo configuration, evaluated\<close>

lemma demo_initialize:
  "async_initialize demo_env (ImouDevice (JStr ''IPC1'')) =
     (Return (), demo_device, [Call_deviceBaseDetailList [JStr ''IPC1'']])"
  by code_simp

lemma demo_initialize2:
  "async_initialize demo_env (ImouDevice (JStr ''IPC2'')) =
     (Return (), demo_device2, [Call_deviceBaseDetailList [JStr ''IPC2'']])"
  by code_simp

lemma demo_initialize_again:
  "async_initialize demo_env demo_device =
     (Return (), demo_device_twice, [Call_deviceBaseDetailList [JStr ''IPC1'']])"
  by code_simp

lemma demo_distinct: "distinct (map fst (IMOU_SWITCHES demo_env))"
  by code_simp

lemma demo_discover:
  "async_discover_devices demo_env =
     (Return [''Cam'' \<mapsto> demo_device2],
      [Call_deviceBaseList, Call_deviceBaseDetailList [JStr ''IPC1''],
       Call_deviceBaseDetailList [JStr ''IPC2'']])"
proof -
  have "async_api_deviceBaseList demo_env =
      Inr [(''count'', JNum 2),
           (''deviceList'', JList [JDict [(''deviceId'', JStr ''IPC1'')],
                                   JDict [(''deviceId'', JStr ''IPC2'')]])]"
    by (simp add: demo_env_def)
  moreover have "fstring demo_env (get_name demo_device) = ''Cam''"
    "fstring demo_env (get_name demo_device2) = ''Cam''"
    by (simp_all add: fstring_def get_name_def demo_device_def demo_device2_def)
  ultimately show ?thesis
    by (simp add: async_discover_devices_def demo_initialize demo_initialize2)
qed

section \<open>Properties of the accessors\<close>

text \<open>
  C6: \<open>get_name()\<close> returns the user-given name when it has been set to a non-empty
  string, and the vendor-supplied name otherwise; \<open>set_name("")\<close> reverts \<open>get_name()\<close>
  to the vendor name.
\<close>

theorem get_name_override:
  "get_name (set_name n d) = (if n \<noteq> '''' then JStr n else name d)
   \<and> get_name (set_name '''' d) = name d
   \<and> get_name d = (if given_name d \<noteq> '''' then JStr (given_name d) else name d)"
  by (simp add: get_name_def set_name_def)

theorem get_name_override_witness:
  "get_name (set_name ''Porch'' (ImouDevice (JStr ''IPC1''))) = JStr ''Porch''
   \<and> get_name (set_name '''' (set_name ''Porch'' (ImouDevice (JStr ''IPC1'')))) = JStr ''N.A.''"
  using get_name_override [of "''Porch''" "ImouDevice (JStr ''IPC1'')"]
    get_name_override [of "''''" "set_name ''Porch'' (ImouDevice (JStr ''IPC1''))"]
  by (simp add: set_name_def ImouDevice_def)

section \<open>Properties of initialisation\<close>

text \<open>
  C1: whatever capability string the API reports, with or without "motionDetect", after
  a successful \<open>async_initialize\<close> the device's capability list contains "motionDetect".
\<close>

theorem motionDetect_always_present:
  assumes "async_initialize E d = (Return u, d', calls)"
  shows "''motionDetect'' \<in> set (capabilities d')"
  using assms by (rule async_initialize_fields(1))

theorem motionDetect_always_present_witness:
  "async_initialize demo_env (ImouDevice (JStr ''IPC1'')) =
     (Return (), demo_device, [Call_deviceBaseDetailList [JStr ''IPC1'']])
   \<and> getitem (demo_entry (JStr ''IPC1'')) ''ability'' = Inr (JStr ''WLAN,CloseCamera,closeCamera'')
   \<and> capabilities demo_device = [''WLAN'', ''CloseCamera'', ''closeCamera'', ''motionDetect'']
   \<and> ''motionDetect'' \<in> set (capabilities demo_device)"
  using motionDetect_always_present [OF demo_initialize] demo_initialize
  by (simp add: demo_device_def demo_entry_def)

text \<open>
  C2: a successful \<open>async_initialize\<close> appends to the "switch" category one switch
  entity for each key of the switch table that equals some capability of the device up
  to case, in table order, and nothing else: the number of new switch entities named
  \<open>t\<close> is one when \<open>t\<close> is a switch type with a matching capability, however many
  capabilities match it, and zero otherwise. The keys of the table, a dict, are distinct.
\<close>

theorem one_switch_per_matching_type:
  assumes "async_initialize E d = (Return u, d', calls)"
    and "distinct (map fst (IMOU_SWITCHES E))"
  shows "\<exists>new. switch_instances d' = switch_instances d @ new
           \<and> new = map (ImouSwitch (device_id d) (get_name d'))
                     (filter (\<lambda>t. \<exists>c\<in>set (capabilities d'). lower t = lower c)
                        (map fst (IMOU_SWITCHES E)))
           \<and> (\<forall>t. length (filter (\<lambda>s. ent_name s = t) new) =
                  (if t \<in> set (map fst (IMOU_SWITCHES E))
                      \<and> (\<exists>c\<in>set (capabilities d'). lower t = lower c)
                   then 1 else 0))"
proof -
  let ?ms = "filter (\<lambda>t. \<exists>c\<in>set (capabilities d'). lower t = lower c)
               (map fst (IMOU_SWITCHES E))"
  let ?new = "map (ImouSwitch (device_id d) (get_name d')) ?ms"
  have "switch_instances d' = switch_instances d @ ?new"
    using assms(1) by (rule async_initialize_fields(2))
  moreover have "length (filter (\<lambda>s. ent_name s = t) ?new) =
      (if t \<in> set (map fst (IMOU_SWITCHES E))
          \<and> (\<exists>c\<in>set (capabilities d'). lower t = lower c)
       then 1 else 0)" for t
    by (simp only: length_filter_map_ImouSwitch count_list_filter_distinct [OF assms(2)])
  ultimately show ?thesis
    by blast
qed

theorem one_switch_per_matching_type_witness:
  "async_initialize demo_env (ImouDevice (JStr ''IPC1'')) =
     (Return (), demo_device, [Call_deviceBaseDetailList [JStr ''IPC1'']])
   \<and> map fst (IMOU_SWITCHES demo_env) = [''motionDetect'', ''headerDetect'', ''closeCamera'']
   \<and> capabilities demo_device = [''WLAN'', ''CloseCamera'', ''closeCamera'', ''motionDetect'']
   \<and> lower ''closeCamera'' = lower ''CloseCamera''
   \<and> switch_instances demo_device =
        [ImouSwitch (JStr ''IPC1'') (JStr ''Cam'') ''motionDetect'',
         ImouSwitch (JStr ''IPC1'') (JStr ''Cam'') ''closeCamera'']
   \<and> (\<exists>new. switch_instances demo_device = switch_instances (ImouDevice (JStr ''IPC1'')) @ new
         \<and> length (filter (\<lambda>s. ent_name s = ''closeCamera'') new) = 1
         \<and> length (filter (\<lambda>s. ent_name s = ''headerDetect'') new) = 0)"
proof -
  from one_switch_per_matching_type [OF demo_initialize demo_distinct]
  obtain new where
    n: "switch_instances demo_device = switch_instances (ImouDevice (JStr ''IPC1'')) @ new"
    and c: "\<And>t. length (filter (\<lambda>s. ent_name s = t) new) =
           (if t \<in> set (map fst (IMOU_SWITCHES demo_env))
               \<and> (\<exists>c\<in>set (capabilities demo_device). lower t = lower c)
            then 1 else 0)"
    by blast
  have m1: "(''closeCamera'' \<in> set (map fst (IMOU_SWITCHES demo_env))
        \<and> (\<exists>c\<in>set (capabilities demo_device). lower ''closeCamera'' = lower c)) = True"
    by code_simp
  have m2: "(''headerDetect'' \<in> set (map fst (IMOU_SWITCHES demo_env))
        \<and> (\<exists>c\<in>set (capabilities demo_device). lower ''headerDetect'' = lower c)) = False"
    by code_simp
  have 1: "length (filter (\<lambda>s. ent_name s = ''closeCamera'') new) = 1"
    unfolding c m1 by simp
  have 2: "length (filter (\<lambda>s. ent_name s = ''headerDetect'') new) = 0"
    unfolding c m2 by simp
  have 3: "map fst (IMOU_SWITCHES demo_env) = [''motionDetect'', ''headerDetect'', ''closeCamera'']"
    "capabilities demo_device = [''WLAN'', ''CloseCamera'', ''closeCamera'', ''motionDetect'']"
    "switch_instances demo_device =
        [ImouSwitch (JStr ''IPC1'') (JStr ''Cam'') ''motionDetect'',
         ImouSwitch (JStr ''IPC1'') (JStr ''Cam'') ''closeCamera'']"
    by (simp_all add: demo_env_def demo_device_def)
  have 4: "lower ''closeCamera'' = lower ''CloseCamera''"
    by code_simp
  from demo_initialize 3 4 n 1 2 show ?thesis
    by blast
qed

text \<open>
  C4: \<open>async_initialize\<close> raises \<open>InvalidResponse\<close> when the detail response has no
  "deviceList" entry, when its list has no element or more than one, and when the single
  entry is not a dict holding "catalog", "version", "name", "deviceModel", "status" and a
  string "ability" (a missing field or a value of the wrong type in the try block). The
  initialized flag is true after a call that returns and is what it was before after a
  call that raises.
\<close>

theorem async_initialize_validation:
  "(\<forall>device_array.
      async_api_deviceBaseDetailList E [device_id d] = Inr device_array \<longrightarrow>
        (map_of device_array ''deviceList'' = None \<longrightarrow>
           fst (async_initialize E d) = Raise InvalidResponse)
      \<and> (\<forall>entries.
            map_of device_array ''deviceList'' = Some (JList entries) \<longrightarrow>
            length entries \<noteq> 1 \<longrightarrow>
              fst (async_initialize E d) = Raise InvalidResponse)
      \<and> (\<forall>device_data.
            map_of device_array ''deviceList'' = Some (JList [device_data]) \<longrightarrow>
            \<not> (\<exists>vc vv vn vm vs ab.
                  getitem device_data ''catalog'' = Inr vc
                \<and> getitem device_data ''version'' = Inr vv
                \<and> getitem device_data ''name'' = Inr vn
                \<and> getitem device_data ''deviceModel'' = Inr vm
                \<and> getitem device_data ''status'' = Inr vs
                \<and> getitem device_data ''ability'' = Inr (JStr ab)) \<longrightarrow>
              fst (async_initialize E d) = Raise InvalidResponse))
   \<and> (\<forall>e. fst (async_initialize E d) = Raise e \<longrightarrow>
          initialized (fst (snd (async_initialize E d))) = initialized d)
   \<and> (fst (async_initialize E d) = Return () \<longrightarrow>
          initialized (fst (snd (async_initialize E d))))"
proof (intro conjI allI impI)
  fix device_array
  assume api: "async_api_deviceBaseDetailList E [device_id d] = Inr device_array"
  {
    assume "map_of device_array ''deviceList'' = None"
    with api show "fst (async_initialize E d) = Raise InvalidResponse"
      by (simp add: async_initialize_def)
  next
    fix entries
    assume "map_of device_array ''deviceList'' = Some (JList entries)" "length entries \<noteq> 1"
    with api show "fst (async_initialize E d) = Raise InvalidResponse"
      by (simp add: async_initialize_def)
  next
    fix device_data
    assume dl: "map_of device_array ''deviceList'' = Some (JList [device_data])"
      and bad: "\<not> (\<exists>vc vv vn vm vs ab.
                  getitem device_data ''catalog'' = Inr vc
                \<and> getitem device_data ''version'' = Inr vv
                \<and> getitem device_data ''name'' = Inr vn
                \<and> getitem device_data ''deviceModel'' = Inr vm
                \<and> getitem device_data ''status'' = Inr vs
                \<and> getitem device_data ''ability'' = Inr (JStr ab))"
    from api dl initialize_body_Some [OF bad]
    show "fst (async_initialize E d) = Raise InvalidResponse"
      by (rule async_initialize_body_fails)
  }
next
  fix e
  assume "fst (async_initialize E d) = Raise e"
  then show "initialized (fst (snd (async_initialize E d))) = initialized d"
    by (simp add: async_initialize_initialized)
next
  assume "fst (async_initialize E d) = Return ()"
  then show "initialized (fst (snd (async_initialize E d)))"
    by (simp add: async_initialize_initialized)
qed

theorem async_initialize_validation_witness:
  "async_initialize (demo_env_detail [(''code'', JStr ''0'')]) (ImouDevice (JStr ''IPC1''))
     = (Raise InvalidResponse, ImouDevice (JStr ''IPC1''),
        [Call_deviceBaseDetailList [JStr ''IPC1'']])
   \<and> fst (async_initialize (demo_env_detail [(''deviceList'', JList [])])
            (ImouDevice (JStr ''IPC1''))) = Raise InvalidResponse
   \<and> fst (async_initialize
            (demo_env_detail
               [(''deviceList'', JList [demo_entry (JStr ''IPC1''), demo_entry (JStr ''IPC1'')])])
            (ImouDevice (JStr ''IPC1''))) = Raise InvalidResponse
   \<and> async_initialize
        (demo_env_detail [(''deviceList'', JList [JDict [(''catalog'', JStr ''IPC'')]])])
        (ImouDevice (JStr ''IPC1''))
     = (Raise InvalidResponse, (ImouDevice (JStr ''IPC1''))\<lparr>catalog := JStr ''IPC''\<rparr>,
        [Call_deviceBaseDetailList [JStr ''IPC1'']])
   \<and> fst (async_initialize (demo_env_detail [(''deviceList'', JList [JNum 7])])
            (ImouDevice (JStr ''IPC1''))) = Raise InvalidResponse
   \<and> initialized (ImouDevice (JStr ''IPC1'')) = False
   \<and> initialized
        (fst (snd (async_initialize (demo_env_detail [(''deviceList'', JList [JNum 7])])
                     (ImouDevice (JStr ''IPC1''))))) = False
   \<and> fst (async_initialize demo_env (ImouDevice (JStr ''IPC1''))) = Return ()
   \<and> initialized (fst (snd (async_initialize demo_env (ImouDevice (JStr ''IPC1'')))))"
proof -
  let ?d = "ImouDevice (JStr ''IPC1'')"
  have api: "async_api_deviceBaseDetailList (demo_env_detail r) [device_id ?d] = Inr r" for r
    by (simp add: demo_env_detail_def)
  have 1: "async_initialize (demo_env_detail [(''code'', JStr ''0'')]) ?d
     = (Raise InvalidResponse, ?d, [Call_deviceBaseDetailList [JStr ''IPC1'']])"
    by code_simp
  have 2: "fst (async_initialize (demo_env_detail [(''deviceList'', JList [])]) ?d)
     = Raise InvalidResponse"
    using async_initialize_validation [of "demo_env_detail [(''deviceList'', JList [])]" ?d] api
    by simp
  have 3: "fst (async_initialize
            (demo_env_detail
               [(''deviceList'', JList [demo_entry (JStr ''IPC1''), demo_entry (JStr ''IPC1'')])])
            ?d) = Raise InvalidResponse"
    using async_initialize_validation [of "demo_env_detail
               [(''deviceList'', JList [demo_entry (JStr ''IPC1''), demo_entry (JStr ''IPC1'')])]"
            ?d] api
    by simp
  have 4: "async_initialize
        (demo_env_detail [(''deviceList'', JList [JDict [(''catalog'', JStr ''IPC'')]])]) ?d
     = (Raise InvalidResponse, ?d\<lparr>catalog := JStr ''IPC''\<rparr>,
        [Call_deviceBaseDetailList [JStr ''IPC1'']])"
    by code_simp
  have 5: "fst (async_initialize (demo_env_detail [(''deviceList'', JList [JNum 7])]) ?d)
     = Raise InvalidResponse"
    using async_initialize_validation [of "demo_env_detail [(''deviceList'', JList [JNum 7])]" ?d]
      api
    by simp
  have 6: "initialized ?d = False"
    by (simp add: ImouDevice_def)
  have 7: "initialized
        (fst (snd (async_initialize (demo_env_detail [(''deviceList'', JList [JNum 7])]) ?d)))
      = False"
    using async_initialize_validation [of "demo_env_detail [(''deviceList'', JList [JNum 7])]" ?d]
      5 6
    by simp
  have 8: "fst (async_initialize demo_env ?d) = Return ()"
    by (simp add: demo_initialize)
  have 9: "initialized (fst (snd (async_initialize demo_env ?d)))"
    using async_initialize_validation [of demo_env ?d] 8
    by simp
  from 1 2 3 4 5 6 7 8 9 show ?thesis
    by (intro conjI)
qed

text \<open>
  C9: \<open>async_initialize\<close> is not idempotent. After two successful calls in a row the
  "sensor" category holds two more "lastAlarm" sensors than before, the "binary_sensor"
  category two more "online" binary sensors, and the "switch" category the switches of
  the first call followed by those of the second, so that a switch type matched in both
  calls is there two more times than before. On a device constructed without entities
  these are exactly two of each.
\<close>

theorem async_initialize_twice_appends:
  assumes "async_initialize E1 d = (Return u1, d1, calls1)"
    and "async_initialize E2 d1 = (Return u2, d2, calls2)"
    and "distinct (map fst (IMOU_SWITCHES E1))"
    and "distinct (map fst (IMOU_SWITCHES E2))"
  shows "sensor_instances d2 = sensor_instances d
           @ [ImouSensor (device_id d) (get_name d1) ''lastAlarm'',
              ImouSensor (device_id d) (get_name d2) ''lastAlarm'']
       \<and> binary_sensor_instances d2 = binary_sensor_instances d
           @ [ImouBinarySensor (device_id d) (get_name d1) ''online'',
              ImouBinarySensor (device_id d) (get_name d2) ''online'']
       \<and> switch_instances d2 = switch_instances d
           @ map (ImouSwitch (device_id d) (get_name d1))
               (filter (\<lambda>t. \<exists>c\<in>set (capabilities d1). lower t = lower c)
                  (map fst (IMOU_SWITCHES E1)))
           @ map (ImouSwitch (device_id d) (get_name d2))
               (filter (\<lambda>t. \<exists>c\<in>set (capabilities d2). lower t = lower c)
                  (map fst (IMOU_SWITCHES E2)))
       \<and> length (filter (\<lambda>s. ent_name s = ''lastAlarm'') (sensor_instances d2))
           = length (filter (\<lambda>s. ent_name s = ''lastAlarm'') (sensor_instances d)) + 2
       \<and> length (filter (\<lambda>s. ent_name s = ''online'') (binary_sensor_instances d2))
           = length (filter (\<lambda>s. ent_name s = ''online'') (binary_sensor_instances d)) + 2
       \<and> (\<forall>t. t \<in> set (map fst (IMOU_SWITCHES E1))
              \<and> (\<exists>c\<in>set (capabilities d1). lower t = lower c)
              \<and> t \<in> set (map fst (IMOU_SWITCHES E2))
              \<and> (\<exists>c\<in>set (capabilities d2). lower t = lower c) \<longrightarrow>
            length (filter (\<lambda>s. ent_name s = t) (switch_instances d2))
              = length (filter (\<lambda>s. ent_name s = t) (switch_instances d)) + 2)"
proof -
  note f1 = async_initialize_fields [OF assms(1)]
  note f2 = async_initialize_fields [OF assms(2)]
  have se: "sensor_instances d2 = sensor_instances d
           @ [ImouSensor (device_id d) (get_name d1) ''lastAlarm'',
              ImouSensor (device_id d) (get_name d2) ''lastAlarm'']"
    by (simp add: f2(4) f1(4) f1(6))
  have bs: "binary_sensor_instances d2 = binary_sensor_instances d
           @ [ImouBinarySensor (device_id d) (get_name d1) ''online'',
              ImouBinarySensor (device_id d) (get_name d2) ''online'']"
    by (simp add: f2(5) f1(5) f1(6))
  have sw: "switch_instances d2 = switch_instances d
           @ map (ImouSwitch (device_id d) (get_name d1))
               (filter (\<lambda>t. \<exists>c\<in>set (capabilities d1). lower t = lower c)
                  (map fst (IMOU_SWITCHES E1)))
           @ map (ImouSwitch (device_id d) (get_name d2))
               (filter (\<lambda>t. \<exists>c\<in>set (capabilities d2). lower t = lower c)
                  (map fst (IMOU_SWITCHES E2)))"
    by (simp add: f2(2) f1(2) f1(6))
  have c1: "length (filter (\<lambda>s. ent_name s = ''lastAlarm'') (sensor_instances d2))
           = length (filter (\<lambda>s. ent_name s = ''lastAlarm'') (sensor_instances d)) + 2"
    by (simp add: se)
  have c2: "length (filter (\<lambda>s. ent_name s = ''online'') (binary_sensor_instances d2))
           = length (filter (\<lambda>s. ent_name s = ''online'') (binary_sensor_instances d)) + 2"
    by (simp add: bs)
  have c3: "length (filter (\<lambda>s. ent_name s = t) (switch_instances d2))
              = length (filter (\<lambda>s. ent_name s = t) (switch_instances d)) + 2"
    if "t \<in> set (map fst (IMOU_SWITCHES E1))
          \<and> (\<exists>c\<in>set (capabilities d1). lower t = lower c)
          \<and> t \<in> set (map fst (IMOU_SWITCHES E2))
          \<and> (\<exists>c\<in>set (capabilities d2). lower t = lower c)" for t
    using that
    by (simp only: sw filter_append length_append length_filter_map_ImouSwitch
          count_list_filter_distinct [OF assms(3)] count_list_filter_distinct [OF assms(4)])
       simp
  from se bs sw c1 c2 c3 show ?thesis
    by blast
qed

theorem async_initialize_twice_appends_witness:
  "async_initialize demo_env (ImouDevice (JStr ''IPC1'')) =
     (Return (), demo_device, [Call_deviceBaseDetailList [JStr ''IPC1'']])
   \<and> async_initialize demo_env demo_device =
     (Return (), demo_device_twice, [Call_deviceBaseDetailList [JStr ''IPC1'']])
   \<and> distinct (map fst (IMOU_SWITCHES demo_env))
   \<and> sensor_instances demo_device_twice =
        [ImouSensor (JStr ''IPC1'') (JStr ''Cam'') ''lastAlarm'',
         ImouSensor (JStr ''IPC1'') (JStr ''Cam'') ''lastAlarm'']
   \<and> binary_sensor_instances demo_device_twice =
        [ImouBinarySensor (JStr ''IPC1'') (JStr ''Cam'') ''online'',
         ImouBinarySensor (JStr ''IPC1'') (JStr ''Cam'') ''online'']
   \<and> map ent_name (switch_instances demo_device_twice) =
        [''motionDetect'', ''closeCamera'', ''motionDetect'', ''closeCamera'']
   \<and> length (filter (\<lambda>s. ent_name s = ''lastAlarm'') (sensor_instances demo_device_twice)) = 2
   \<and> length (filter (\<lambda>s. ent_name s = ''online'') (binary_sensor_instances demo_device_twice)) = 2
   \<and> length (filter (\<lambda>s. ent_name s = ''closeCamera'') (switch_instances demo_device_twice)) = 2"
proof -
  note t = async_initialize_twice_appends
    [OF demo_initialize demo_initialize_again demo_distinct demo_distinct]
  have fresh: "sensor_instances (ImouDevice (JStr ''IPC1'')) = []"
    "binary_sensor_instances (ImouDevice (JStr ''IPC1'')) = []"
    "switch_instances (ImouDevice (JStr ''IPC1'')) = []"
    by (simp_all add: ImouDevice_def)
  have m: "''closeCamera'' \<in> set (map fst (IMOU_SWITCHES demo_env))
      \<and> (\<exists>c\<in>set (capabilities demo_device). lower ''closeCamera'' = lower c)
      \<and> ''closeCamera'' \<in> set (map fst (IMOU_SWITCHES demo_env))
      \<and> (\<exists>c\<in>set (capabilities demo_device_twice). lower ''closeCamera'' = lower c)"
    by code_simp
  have 1: "length (filter (\<lambda>s. ent_name s = ''lastAlarm'') (sensor_instances demo_device_twice)) = 2"
    using t fresh by simp
  have 2: "length (filter (\<lambda>s. ent_name s = ''online'')
             (binary_sensor_instances demo_device_twice)) = 2"
    using t fresh by simp
  from t m have "length (filter (\<lambda>s. ent_name s = ''closeCamera'')
             (switch_instances demo_device_twice))
      = length (filter (\<lambda>s. ent_name s = ''closeCamera'')
             (switch_instances (ImouDevice (JStr ''IPC1'')))) + 2"
    by blast
  then have 3: "length (filter (\<lambda>s. ent_name s = ''closeCamera'')
             (switch_instances demo_device_twice)) = 2"
    by (simp add: fresh)
  have 4: "sensor_instances demo_device_twice =
        [ImouSensor (JStr ''IPC1'') (JStr ''Cam'') ''lastAlarm'',
         ImouSensor (JStr ''IPC1'') (JStr ''Cam'') ''lastAlarm'']"
    "binary_sensor_instances demo_device_twice =
        [ImouBinarySensor (JStr ''IPC1'') (JStr ''Cam'') ''online'',
         ImouBinarySensor (JStr ''IPC1'') (JStr ''Cam'') ''online'']"
    "map ent_name (switch_instances demo_device_twice) =
        [''motionDetect'', ''closeCamera'', ''motionDetect'', ''closeCamera'']"
    by (simp_all add: demo_device_twice_def demo_device_def)
  from demo_initialize demo_initialize_again demo_distinct 4 1 2 3 show ?thesis
    by (intro conjI)
qed

section \<open>Properties of refreshing\<close>

text \<open>
  C5: on a device whose enabled flag is false \<open>async_get_data\<close> returns false, calls
  neither the API nor an entity, and leaves the device, its entities included, as it was.
\<close>

theorem async_get_data_disabled:
  assumes "\<not> enabled d"
  shows "async_get_data E d = (Return False, d, [])"
  using assms by (simp add: async_get_data_def)

theorem async_get_data_disabled_witness:
  "\<not> enabled (set_enabled False demo_device)
   \<and> async_get_data demo_env (set_enabled False demo_device)
       = (Return False, set_enabled False demo_device, [])"
  using async_get_data_disabled [of "set_enabled False demo_device" demo_env]
  by (simp add: set_enabled_def)

text \<open>
  C10: on an enabled, initialized device, when the online-status response has no "onLine"
  field, \<open>async_get_data\<close> raises \<open>InvalidResponse\<close> after the one API call and before
  any assignment: the device, its online flag and its entities are what they were.
\<close>

theorem async_get_data_missing_onLine:
  assumes "enabled d" and "initialized d"
    and "async_api_deviceOnline E (device_id d) = Inr data"
    and "map_of data ''onLine'' = None"
  shows "async_get_data E d = (Raise InvalidResponse, d, [Call_deviceOnline (device_id d)])"
  using assms by (simp add: async_get_data_def)

theorem async_get_data_missing_onLine_witness:
  "enabled demo_device \<and> initialized demo_device
   \<and> async_api_deviceOnline (demo_env_online [(''online'', JStr ''1'')]) (device_id demo_device)
       = Inr [(''online'', JStr ''1'')]
   \<and> map_of [(''online'', JStr ''1'')] ''onLine'' = None
   \<and> async_get_data (demo_env_online [(''online'', JStr ''1'')]) demo_device
       = (Raise InvalidResponse, demo_device, [Call_deviceOnline (JStr ''IPC1'')])"
  using async_get_data_missing_onLine [of demo_device
      "demo_env_online [(''online'', JStr ''1'')]" "[(''online'', JStr ''1'')]"]
  by (simp add: demo_device_def demo_env_online_def)

text \<open>
  C3, as amended: on an enabled, initialized device whose online-status response carries
  "onLine". When the value is "1" and no entity's update raises, \<open>async_get_data\<close>
  awaits the update of every entity once, the switches first, then the sensors, then the
  binary sensors, each category in list order, and returns true. When the value is
  anything else it awaits no update, leaves the entities as they were and returns true.
\<close>

theorem async_get_data_refreshes_in_order:
  assumes "enabled d" and "initialized d"
    and "async_api_deviceOnline E (device_id d) = Inr data"
    and "map_of data ''onLine'' = Some v"
  shows "(v = JStr ''1'' \<longrightarrow>
            (\<forall>s\<in>set (get_all_sensors d). fst (async_update E s) = None) \<longrightarrow>
            get_all_sensors d = switch_instances d @ sensor_instances d @ binary_sensor_instances d
          \<and> async_get_data E d =
              (Return True,
               d\<lparr>online := True,
                  switch_instances := map (\<lambda>s. snd (async_update E s)) (switch_instances d),
                  sensor_instances := map (\<lambda>s. snd (async_update E s)) (sensor_instances d),
                  binary_sensor_instances :=
                    map (\<lambda>s. snd (async_update E s)) (binary_sensor_instances d)\<rparr>,
               Call_deviceOnline (device_id d) # map Call_async_update (get_all_sensors d)))
       \<and> (v \<noteq> JStr ''1'' \<longrightarrow>
            async_get_data E d =
              (Return True, d\<lparr>online := False\<rparr>, [Call_deviceOnline (device_id d)])
          \<and> get_all_sensors (d\<lparr>online := False\<rparr>) = get_all_sensors d)"
proof (intro conjI impI)
  show "get_all_sensors d = switch_instances d @ sensor_instances d @ binary_sensor_instances d"
    by (simp add: get_all_sensors_def sensor_instances_items_def)
next
  assume v: "v = JStr ''1''"
    and ok: "\<forall>s\<in>set (get_all_sensors d). fst (async_update E s) = None"
  have all: "get_all_sensors d =
      switch_instances d @ sensor_instances d @ binary_sensor_instances d"
    by (simp add: get_all_sensors_def sensor_instances_items_def)
  from ok all have 1: "\<forall>s\<in>set (switch_instances d). fst (async_update E s) = None"
    and 2: "\<forall>s\<in>set (sensor_instances d). fst (async_update E s) = None"
    and 3: "\<forall>s\<in>set (binary_sensor_instances d). fst (async_update E s) = None"
    by simp_all
  have upd: "update_all E (d\<lparr>online := True\<rparr>) =
      (None,
       d\<lparr>online := True,
          switch_instances := map (\<lambda>s. snd (async_update E s)) (switch_instances d),
          sensor_instances := map (\<lambda>s. snd (async_update E s)) (sensor_instances d),
          binary_sensor_instances :=
            map (\<lambda>s. snd (async_update E s)) (binary_sensor_instances d)\<rparr>,
       map Call_async_update (get_all_sensors d))"
    by (simp add: update_all_def update_instances_ok [OF 1] update_instances_ok [OF 2]
        update_instances_ok [OF 3] all)
  show "async_get_data E d =
      (Return True,
       d\<lparr>online := True,
          switch_instances := map (\<lambda>s. snd (async_update E s)) (switch_instances d),
          sensor_instances := map (\<lambda>s. snd (async_update E s)) (sensor_instances d),
          binary_sensor_instances :=
            map (\<lambda>s. snd (async_update E s)) (binary_sensor_instances d)\<rparr>,
       Call_deviceOnline (device_id d) # map Call_async_update (get_all_sensors d))"
    using assms v by (simp add: async_get_data_def upd)
next
  assume "v \<noteq> JStr ''1''"
  then show "async_get_data E d =
      (Return True, d\<lparr>online := False\<rparr>, [Call_deviceOnline (device_id d)])"
    using assms by (simp add: async_get_data_def)
next
  show "get_all_sensors (d\<lparr>online := False\<rparr>) = get_all_sensors d"
    by (simp add: get_all_sensors_def sensor_instances_items_def)
qed

theorem async_get_data_refreshes_in_order_witness:
  "enabled demo_device \<and> initialized demo_device
   \<and> async_api_deviceOnline demo_env (device_id demo_device) = Inr [(''onLine'', JStr ''1'')]
   \<and> async_get_data demo_env demo_device =
       (Return True,
        demo_device
          \<lparr>online := True,
           switch_instances := map (\<lambda>s. snd (demo_update s)) (switch_instances demo_device),
           sensor_instances := map (\<lambda>s. snd (demo_update s)) (sensor_instances demo_device),
           binary_sensor_instances :=
             map (\<lambda>s. snd (demo_update s)) (binary_sensor_instances demo_device)\<rparr>,
        [Call_deviceOnline (JStr ''IPC1''),
         Call_async_update (ImouSwitch (JStr ''IPC1'') (JStr ''Cam'') ''motionDetect''),
         Call_async_update (ImouSwitch (JStr ''IPC1'') (JStr ''Cam'') ''closeCamera''),
         Call_async_update (ImouSensor (JStr ''IPC1'') (JStr ''Cam'') ''lastAlarm''),
         Call_async_update (ImouBinarySensor (JStr ''IPC1'') (JStr ''Cam'') ''online'')])
   \<and> async_api_deviceOnline (demo_env_online [(''onLine'', JStr ''0'')]) (device_id demo_device)
       = Inr [(''onLine'', JStr ''0'')]
   \<and> async_get_data (demo_env_online [(''onLine'', JStr ''0'')]) demo_device =
       (Return True, demo_device\<lparr>online := False\<rparr>, [Call_deviceOnline (JStr ''IPC1'')])
   \<and> get_all_sensors (demo_device\<lparr>online := False\<rparr>) = get_all_sensors demo_device"
proof -
  have flags: "enabled demo_device" "initialized demo_device"
    by (simp_all add: demo_device_def)
  have on: "async_api_deviceOnline demo_env (device_id demo_device) = Inr [(''onLine'', JStr ''1'')]"
    by (simp add: demo_env_def)
  have off: "async_api_deviceOnline (demo_env_online [(''onLine'', JStr ''0'')])
      (device_id demo_device) = Inr [(''onLine'', JStr ''0'')]"
    by (simp add: demo_env_online_def)
  have ok: "\<forall>s\<in>set (get_all_sensors demo_device). fst (async_update demo_env s) = None"
    by (simp add: demo_env_def demo_update_def)
  have upd: "async_update demo_env = demo_update"
    by (simp add: demo_env_def)
  have ident: "device_id demo_device = JStr ''IPC1''"
    "get_all_sensors demo_device =
       [ImouSwitch (JStr ''IPC1'') (JStr ''Cam'') ''motionDetect'',
        ImouSwitch (JStr ''IPC1'') (JStr ''Cam'') ''closeCamera'',
        ImouSensor (JStr ''IPC1'') (JStr ''Cam'') ''lastAlarm'',
        ImouBinarySensor (JStr ''IPC1'') (JStr ''Cam'') ''online'']"
    by (simp_all add: demo_device_def get_all_sensors_def sensor_instances_items_def)
  have 1: "async_get_data demo_env demo_device =
       (Return True,
        demo_device
          \<lparr>online := True,
           switch_instances := map (\<lambda>s. snd (demo_update s)) (switch_instances demo_device),
           sensor_instances := map (\<lambda>s. snd (demo_update s)) (sensor_instances demo_device),
           binary_sensor_instances :=
             map (\<lambda>s. snd (demo_update s)) (binary_sensor_instances demo_device)\<rparr>,
        [Call_deviceOnline (JStr ''IPC1''),
         Call_async_update (ImouSwitch (JStr ''IPC1'') (JStr ''Cam'') ''motionDetect''),
         Call_async_update (ImouSwitch (JStr ''IPC1'') (JStr ''Cam'') ''closeCamera''),
         Call_async_update (ImouSensor (JStr ''IPC1'') (JStr ''Cam'') ''lastAlarm''),
         Call_async_update (ImouBinarySensor (JStr ''IPC1'') (JStr ''Cam'') ''online'')])"
    using async_get_data_refreshes_in_order
      [OF flags on, of "JStr ''1''"] ok
    by (simp add: upd ident)
  have 2: "async_get_data (demo_env_online [(''onLine'', JStr ''0'')]) demo_device =
       (Return True, demo_device\<lparr>online := False\<rparr>, [Call_deviceOnline (JStr ''IPC1'')])
     \<and> get_all_sensors (demo_device\<lparr>online := False\<rparr>) = get_all_sensors demo_device"
    using async_get_data_refreshes_in_order
      [OF flags off, of "JStr ''0''"]
    by (simp add: ident)
  from flags on 1 off 2 show ?thesis
    by (intro conjI) simp_all
qed

text \<open>
  C3 as stated, without the condition on the updates, fails: the loop has no handler, so
  an update that raises ends it. Here the device is online and the update of the
  "lastAlarm" sensor raises: the exception leaves \<open>async_get_data\<close>, true is not
  returned, and the update of the "online" binary sensor is never awaited.
\<close>

theorem async_get_data_update_raises_counterexample:
  "enabled demo_device \<and> initialized demo_device
   \<and> async_api_deviceOnline demo_env_failing (device_id demo_device) = Inr [(''onLine'', JStr ''1'')]
   \<and> get_all_sensors demo_device =
       [ImouSwitch (JStr ''IPC1'') (JStr ''Cam'') ''motionDetect'',
        ImouSwitch (JStr ''IPC1'') (JStr ''Cam'') ''closeCamera'',
        ImouSensor (JStr ''IPC1'') (JStr ''Cam'') ''lastAlarm'',
        ImouBinarySensor (JStr ''IPC1'') (JStr ''Cam'') ''online'']
   \<and> async_get_data demo_env_failing demo_device =
       (Raise (Other ''timeout''),
        demo_device
          \<lparr>switch_instances := map (\<lambda>s. snd (demo_update s)) (switch_instances demo_device)\<rparr>,
        [Call_deviceOnline (JStr ''IPC1''),
         Call_async_update (ImouSwitch (JStr ''IPC1'') (JStr ''Cam'') ''motionDetect''),
         Call_async_update (ImouSwitch (JStr ''IPC1'') (JStr ''Cam'') ''closeCamera''),
         Call_async_update (ImouSensor (JStr ''IPC1'') (JStr ''Cam'') ''lastAlarm'')])
   \<and> fst (async_get_data demo_env_failing demo_device) \<noteq> Return True
   \<and> Call_async_update (ImouBinarySensor (JStr ''IPC1'') (JStr ''Cam'') ''online'')
       \<notin> set (snd (snd (async_get_data demo_env_failing demo_device)))"
  by code_simp

section \<open>Properties of the diagnostics\<close>

text \<open>
  C7: the claim has the raw name as description for a name its table lacks, in all four
  lists, and no failure. The capability and switch loops do that. The sensor and
  binary-sensor loops do not: they subscript \<open>SENSORS\<close> and \<open>BINARY_SENSORS\<close> with no
  membership test. With a table \<open>SENSORS\<close> that has no "lastAlarm" key,
  \<open>async_initialize\<close> on a new device creates the "lastAlarm" sensor and then raises
  \<open>KeyError\<close> out of its own \<open>dump()\<close>, and \<open>get_diagnostics()\<close> on the device it
  leaves raises \<open>KeyError\<close>; likewise for \<open>BINARY_SENSORS\<close> and "online". On the
  same device the capability "CloseCamera", which \<open>IMOU_CAPABILITIES\<close> lacks, is
  described by its raw name.
\<close>

theorem get_diagnostics_sensor_lookup_raises:
  "map_of (SENSORS (demo_env_tables [] [(''online'', ''Online'')])) ''lastAlarm'' = None
   \<and> async_initialize (demo_env_tables [] [(''online'', ''Online'')]) (ImouDevice (JStr ''IPC1''))
       = (Raise KeyError, demo_device\<lparr>initialized := False\<rparr>,
          [Call_deviceBaseDetailList [JStr ''IPC1'']])
   \<and> map ent_name (sensor_instances (demo_device\<lparr>initialized := False\<rparr>)) = [''lastAlarm'']
   \<and> get_diagnostics (demo_env_tables [] [(''online'', ''Online'')])
        (demo_device\<lparr>initialized := False\<rparr>) = Inl KeyError
   \<and> map_of (BINARY_SENSORS (demo_env_tables [(''lastAlarm'', ''Last alarm'')] [])) ''online'' = None
   \<and> async_initialize (demo_env_tables [(''lastAlarm'', ''Last alarm'')] [])
        (ImouDevice (JStr ''IPC1''))
       = (Raise KeyError, demo_device\<lparr>initialized := False\<rparr>,
          [Call_deviceBaseDetailList [JStr ''IPC1'']])
   \<and> map ent_name (binary_sensor_instances (demo_device\<lparr>initialized := False\<rparr>)) = [''online'']
   \<and> get_diagnostics (demo_env_tables [(''lastAlarm'', ''Last alarm'')] [])
        (demo_device\<lparr>initialized := False\<rparr>) = Inl KeyError
   \<and> capabilities (demo_device\<lparr>initialized := False\<rparr>) ! 1 = ''CloseCamera''
   \<and> map_of (IMOU_CAPABILITIES
                (demo_env_tables [(''lastAlarm'', ''Last alarm'')] [(''online'', ''Online'')]))
        ''CloseCamera'' = None
   \<and> diag_capability (demo_env_tables [(''lastAlarm'', ''Last alarm'')] [(''online'', ''Online'')])
        ''CloseCamera''
       = JDict [(''name'', JStr ''CloseCamera''), (''description'', JStr ''CloseCamera'')]"
  by code_simp

section \<open>Properties of discovery\<close>

text \<open>
  C8: the mapping \<open>async_discover_devices\<close> returns is keyed by display name. Let the
  devices be listed in the order of the API response. Under each name the mapping holds
  the last device of that name: when two devices resolve to the same display name, the
  later one has replaced the earlier one.
\<close>

theorem discover_later_device_wins:
  assumes "async_discover_devices E = (Return m, calls)"
  shows "\<exists>devices_data device_list entries ds.
           async_api_deviceBaseList E = Inr devices_data
         \<and> map_of devices_data ''deviceList'' = Some device_list
         \<and> py_iter device_list = Inr entries
         \<and> list_all2
             (\<lambda>entry d. \<exists>did u c. getitem entry ''deviceId'' = Inr did
                  \<and> async_initialize E (ImouDevice did) = (Return u, d, c))
             entries ds
         \<and> (\<forall>k. m k = find (\<lambda>d. fstring E (get_name d) = k) (rev ds))
         \<and> (\<forall>i j. i < j \<and> j < length ds
                \<and> fstring E (get_name (ds ! i)) = fstring E (get_name (ds ! j))
                \<and> (\<forall>l. j < l \<and> l < length ds \<longrightarrow>
                       fstring E (get_name (ds ! l)) \<noteq> fstring E (get_name (ds ! j)))
              \<longrightarrow> m (fstring E (get_name (ds ! i))) = Some (ds ! j))"
proof -
  from assms obtain devices_data where 1: "async_api_deviceBaseList E = Inr devices_data"
    by (cases "async_api_deviceBaseList E") (simp_all add: async_discover_devices_def)
  from assms 1 obtain device_list where 2: "map_of devices_data ''deviceList'' = Some device_list"
    by (cases "map_of devices_data ''deviceList''") (simp_all add: async_discover_devices_def)
  from assms 1 2 obtain cnt where 3: "map_of devices_data ''count'' = Some cnt"
    by (cases "map_of devices_data ''count''") (simp_all add: async_discover_devices_def)
  from assms 1 2 3 obtain entries where 4: "py_iter device_list = Inr entries"
    by (cases "py_iter device_list") (simp_all add: async_discover_devices_def)
  obtain r c where 5: "discover_loop E entries Map.empty = (r, c)"
    by (cases "discover_loop E entries Map.empty")
  from assms 1 2 3 4 5 have "r = Return m"
    by (simp add: async_discover_devices_def)
  with 5 discover_loop_Return obtain ds where
    ds: "list_all2
          (\<lambda>entry d. \<exists>did u c. getitem entry ''deviceId'' = Inr did
               \<and> async_initialize E (ImouDevice did) = (Return u, d, c))
          entries ds"
    and m: "m = fold (\<lambda>d m. m(fstring E (get_name d) \<mapsto> d)) ds Map.empty"
    by blast
  have look: "m k = find (\<lambda>d. fstring E (get_name d) = k) (rev ds)" for k
    unfolding m fold_store_find by (simp split: option.splits)
  have later: "m (fstring E (get_name (ds ! i))) = Some (ds ! j)"
    if "i < j \<and> j < length ds
          \<and> fstring E (get_name (ds ! i)) = fstring E (get_name (ds ! j))
          \<and> (\<forall>l. j < l \<and> l < length ds \<longrightarrow>
                 fstring E (get_name (ds ! l)) \<noteq> fstring E (get_name (ds ! j)))" for i j
    unfolding look using that
    by (intro find_rev_last) auto
  from 1 2 4 ds look later show ?thesis
    by blast
qed

theorem discover_later_device_wins_witness:
  "async_discover_devices demo_env =
     (Return [''Cam'' \<mapsto> demo_device2],
      [Call_deviceBaseList, Call_deviceBaseDetailList [JStr ''IPC1''],
       Call_deviceBaseDetailList [JStr ''IPC2'']])
   \<and> async_initialize demo_env (ImouDevice (JStr ''IPC1'')) =
       (Return (), demo_device, [Call_deviceBaseDetailList [JStr ''IPC1'']])
   \<and> async_initialize demo_env (ImouDevice (JStr ''IPC2'')) =
       (Return (), demo_device2, [Call_deviceBaseDetailList [JStr ''IPC2'']])
   \<and> fstring demo_env (get_name demo_device) = ''Cam''
   \<and> fstring demo_env (get_name demo_device2) = ''Cam''
   \<and> demo_device \<noteq> demo_device2
   \<and> [''Cam'' \<mapsto> demo_device2] ''Cam'' = Some demo_device2
   \<and> (\<exists>ds. \<forall>k. [''Cam'' \<mapsto> demo_device2] k
                   = find (\<lambda>d. fstring demo_env (get_name d) = k) (rev ds))"
proof -
  from discover_later_device_wins [OF demo_discover]
  have "\<exists>ds. \<forall>k. [''Cam'' \<mapsto> demo_device2] k
                   = find (\<lambda>d. fstring demo_env (get_name d) = k) (rev ds)"
    by blast
  moreover have "fstring demo_env (get_name demo_device) = ''Cam''"
    "fstring demo_env (get_name demo_device2) = ''Cam''"
    "demo_device \<noteq> demo_device2"
    by (simp_all add: fstring_def get_name_def demo_device_def demo_device2_def)
  ultimately show ?thesis
    using demo_discover demo_initialize demo_initialize2
    by simp
qed

end
